theory Spec2Isabelle
  imports Complex_Main
begin

section \<open>Values shared by the models\<close>

text \<open>
  Python exceptions are values of \<open>error\<close>; a function that can raise returns them.
  Tensor elements and Python floats are real numbers: rounding of the float32 arithmetic
  is not modelled, and a cast between storage types applies a rounding function that is
  a parameter of the model (\<open>rnd\<close>), so every statement holds for any rounding.
\<close>

datatype error =
    ValueError string
  | RuntimeError string
  | AttributeError string
  | KeyError string
  | IndexError string
  | ZeroDivisionError string
  | TypeError string

datatype dtype = Float32 | BFloat16 | Float16 | Float64

record tensor =
  dtype :: dtype
  shape :: "nat list"
  vals :: "real list"
  is_sparse :: bool

text \<open>A \<open>torch.nn.Parameter\<close>: its \<open>data\<close> and its \<open>grad\<close>, which is \<open>None\<close> until a
  backward pass has produced one.\<close>

record param =
  data :: tensor
  grad :: "tensor option"

text \<open>The entries of \<open>self.state[p]\<close> in \<open>ML/BERT_Large/Torch/optimizer/lamb.py\<close>. The keys
  \<open>weight_norm\<close>, \<open>adam_norm\<close> and \<open>trust_ratio\<close> are written only when the weight decay
  is not zero, and \<open>data_fp32\<close> only for a bfloat16 parameter.\<close>

record pstate =
  step :: nat
  exp_avg :: tensor
  exp_avg_sq :: tensor
  data_fp32 :: "tensor option"
  weight_norm :: "real option"
  adam_norm :: "real option"
  trust_ratio :: "real option"

text \<open>\<open>self.state\<close> is a dictionary keyed by the parameter object. A slot pairs a parameter
  with its entry: \<open>None\<close> is the empty dictionary that \<open>len(state) == 0\<close> tests for.\<close>

record slot =
  param :: param
  state :: "pstate option"

record group =
  params :: "slot list"
  lr :: real
  betas :: "real \<times> real"
  eps :: real
  weight_decay :: real

record lamb =
  param_groups :: "group list"
  adam :: bool
  bias_correction :: bool
  perform_allreduce :: bool
  distributed :: bool

text \<open>The parameter at position \<open>pk\<close> of group \<open>gk\<close>, with its state.\<close>

definition slot_at :: "lamb \<Rightarrow> nat \<Rightarrow> nat \<Rightarrow> slot" where
  "slot_at opt gk pk = params (param_groups opt ! gk) ! pk"

section \<open>Lamb.__init__\<close>

text \<open>
  Lines 29-56 of \<open>lamb.py\<close>. The four range checks run in the source's order. The base
  class constructor \<open>Optimizer.__init__(params, defaults)\<close> belongs to torch, not to the
  repository: it is the parameter \<open>super_init\<close>, which builds the parameter groups from
  the parameters and the defaults or raises. \<open>dist_initialized\<close> and \<open>dist_world_size\<close>
  are what \<open>dist.is_initialized()\<close> and \<open>dist.get_world_size()\<close> return.
\<close>

definition Lamb_init ::
  "(param list \<Rightarrow> real \<Rightarrow> real \<times> real \<Rightarrow> real \<Rightarrow> real \<Rightarrow> error + group list) \<Rightarrow>
   bool \<Rightarrow> int \<Rightarrow>
   param list \<Rightarrow> real \<Rightarrow> real \<times> real \<Rightarrow> real \<Rightarrow> real \<Rightarrow> bool \<Rightarrow> bool \<Rightarrow> bool \<Rightarrow> error + lamb" where
  "Lamb_init super_init dist_initialized dist_world_size ps lr0 betas0 eps0 wd0 adam0 bc0 pa0 =
     (if \<not> 0 \<le> lr0 then Inl (ValueError ''Invalid learning rate'')
      else if \<not> 0 \<le> eps0 then Inl (ValueError ''Invalid epsilon value'')
      else if \<not> (0 \<le> fst betas0 \<and> fst betas0 < 1) then
        Inl (ValueError ''Invalid beta parameter at index 0'')
      else if \<not> (0 \<le> snd betas0 \<and> snd betas0 < 1) then
        Inl (ValueError ''Invalid beta parameter at index 1'')
      else
        (case super_init ps lr0 betas0 eps0 wd0 of
           Inl e \<Rightarrow> Inl e
         | Inr gs \<Rightarrow>
             Inr \<lparr>param_groups = gs, adam = adam0, bias_correction = bc0,
                  perform_allreduce = pa0,
                  distributed = (dist_initialized \<and> dist_world_size > 1)\<rparr>))"

text \<open>What \<open>Optimizer.__init__\<close> does with a plain, non-empty list of parameters: one group
  holding all of them with the defaults, and an empty state dictionary.\<close>

definition single_group ::
  "param list \<Rightarrow> real \<Rightarrow> real \<times> real \<Rightarrow> real \<Rightarrow> real \<Rightarrow> error + group list" where
  "single_group ps lr0 betas0 eps0 wd0 =
     Inr [\<lparr>params = map (\<lambda>p. \<lparr>param = p, state = None\<rparr>) ps,
           lr = lr0, betas = betas0, eps = eps0, weight_decay = wd0\<rparr>]"

section \<open>Tensor operations used by the optimizer\<close>

text \<open>
  An operation whose name ends in an underscore works in place in torch: the model returns
  the target with new elements and with the target's own storage type, shape and layout.
  The other operations build a new tensor. Binary operations pair the elements of their
  operands; torch guarantees that a gradient has the shape of its parameter.
\<close>

definition zeros_like :: "tensor \<Rightarrow> dtype \<Rightarrow> tensor" where
  "zeros_like t d = t\<lparr>dtype := d, vals := map (\<lambda>_. 0) (vals t)\<rparr>"

definition to_dtype :: "(dtype \<Rightarrow> real \<Rightarrow> real) \<Rightarrow> tensor \<Rightarrow> dtype \<Rightarrow> tensor" where
  "to_dtype rnd t d = t\<lparr>dtype := d, vals := map (rnd d) (vals t)\<rparr>"

definition mul_inplace :: "tensor \<Rightarrow> real \<Rightarrow> tensor" where
  "mul_inplace t c = t\<lparr>vals := map (\<lambda>x. x * c) (vals t)\<rparr>"

definition div_inplace :: "tensor \<Rightarrow> real \<Rightarrow> tensor" where
  "div_inplace t c = t\<lparr>vals := map (\<lambda>x. x / c) (vals t)\<rparr>"

definition add_inplace :: "tensor \<Rightarrow> tensor \<Rightarrow> real \<Rightarrow> tensor" where
  "add_inplace t other alpha = t\<lparr>vals := map2 (\<lambda>x y. x + alpha * y) (vals t) (vals other)\<rparr>"

definition addcmul_inplace :: "tensor \<Rightarrow> real \<Rightarrow> tensor \<Rightarrow> tensor \<Rightarrow> tensor" where
  "addcmul_inplace t v t1 t2 =
     t\<lparr>vals := map (\<lambda>(x, y, z). x + v * y * z) (zip (vals t) (zip (vals t1) (vals t2)))\<rparr>"

definition truediv :: "tensor \<Rightarrow> real \<Rightarrow> tensor" where
  "truediv t c = t\<lparr>vals := map (\<lambda>x. x / c) (vals t)\<rparr>"

definition tsqrt :: "tensor \<Rightarrow> tensor" where
  "tsqrt t = t\<lparr>vals := map sqrt (vals t)\<rparr>"

definition add_scalar :: "tensor \<Rightarrow> real \<Rightarrow> tensor" where
  "add_scalar t c = t\<lparr>vals := map (\<lambda>x. x + c) (vals t)\<rparr>"

definition tdiv :: "tensor \<Rightarrow> tensor \<Rightarrow> tensor" where
  "tdiv a b = a\<lparr>vals := map2 (\<lambda>x y. x / y) (vals a) (vals b)\<rparr>"

text \<open>\<open>t.pow(2).sum().sqrt()\<close>: the L2 norm.\<close>

definition l2norm :: "tensor \<Rightarrow> real" where
  "l2norm t = sqrt (sum_list (map (\<lambda>x. x ^ 2) (vals t)))"

section \<open>Loops that an exception leaves\<close>

text \<open>
  \<open>for x in xs: body\<close> over mutable objects: the body returns the exception it raised,
  if any, and the object as it left it. An exception ends the loop; the objects already
  visited keep their updates and the others are untouched. The body is told the position
  of the object.
\<close>

fun for_each :: "(nat \<Rightarrow> 'a \<Rightarrow> error option \<times> 'a) \<Rightarrow> nat \<Rightarrow> 'a list \<Rightarrow> error option \<times> 'a list" where
  "for_each body i [] = (None, [])"
| "for_each body i (x # xs) =
     (case body i x of
        (Some e, x') \<Rightarrow> (Some e, x' # xs)
      | (None, x') \<Rightarrow> (case for_each body (Suc i) xs of (e, xs') \<Rightarrow> (e, x' # xs')))"

text \<open>
  \<open>for group in self.param_groups: for p in group["params"]: body\<close>, the two loops that
  \<open>sync_params\<close>, \<open>sync_grads\<close> and \<open>step\<close> share. The body sees the group and the
  positions of the group and of the parameter.
\<close>

definition for_each_param ::
  "(nat \<Rightarrow> group \<Rightarrow> nat \<Rightarrow> slot \<Rightarrow> error option \<times> slot) \<Rightarrow> lamb \<Rightarrow> error option \<times> lamb" where
  "for_each_param body opt =
     (case for_each
             (\<lambda>gk g. case for_each (body gk g) 0 (params g) of (e, ss) \<Rightarrow> (e, g\<lparr>params := ss\<rparr>))
             0 (param_groups opt) of
        (e, gs) \<Rightarrow> (e, opt\<lparr>param_groups := gs\<rparr>))"

section \<open>Lamb.sync_params and Lamb.sync_grads\<close>

text \<open>
  Line 63 of \<open>lamb.py\<close> reads \<open>distance.broadcase(p.data, 0)\<close>, and line 3 binds
  \<open>distance\<close> by \<open>from turtle import distance\<close>: a function of the standard library's
  turtle graphics, which has no attribute \<open>broadcase\<close>. Looking the attribute up raises
  \<open>AttributeError\<close> before anything is called.
\<close>

definition distance_broadcase :: "tensor \<Rightarrow> int \<Rightarrow> error + tensor" where
  "distance_broadcase t src = Inl (AttributeError ''function object has no attribute broadcase'')"

definition sync_param :: "slot \<Rightarrow> error option \<times> slot" where
  "sync_param s =
     (case distance_broadcase (data (param s)) 0 of
        Inl e \<Rightarrow> (Some e, s)
      | Inr t \<Rightarrow> (None, s\<lparr>param := (param s)\<lparr>data := t\<rparr>\<rparr>))"

text \<open>Lines 58-63. The result is the exception raised, if any, and the optimizer as the
  call leaves it.\<close>

definition sync_params :: "lamb \<Rightarrow> error option \<times> lamb" where
  "sync_params opt =
     (if \<not> distributed opt then (None, opt)
      else for_each_param (\<lambda>gk g pk. sync_param) opt)"

text \<open>
  Lines 71-72 for one parameter, as one rank runs them: \<open>p.grad.data\<close> raises
  \<open>AttributeError\<close> when \<open>p.grad\<close> is \<open>None\<close>; otherwise the gradient is divided in
  place and handed to \<open>dist.all_reduce\<close>. What the collective leaves in the buffer
  depends on the other ranks: on one rank it is the parameter \<open>all_reduce\<close>.
\<close>

definition sync_grad :: "(tensor \<Rightarrow> tensor) \<Rightarrow> int \<Rightarrow> slot \<Rightarrow> error option \<times> slot" where
  "sync_grad all_reduce world_size s =
     (case grad (param s) of
        None \<Rightarrow> (Some (AttributeError ''NoneType object has no attribute data''), s)
      | Some g \<Rightarrow>
          (None, s\<lparr>param := (param s)\<lparr>grad := Some (all_reduce (div_inplace g (real_of_int world_size)))\<rparr>\<rparr>))"

text \<open>Lines 65-72 on one rank. The collective of the parameter at position \<open>pk\<close> of group
  \<open>gk\<close> is \<open>all_reduce gk pk\<close>.\<close>

definition sync_grads :: "(nat \<Rightarrow> nat \<Rightarrow> tensor \<Rightarrow> tensor) \<Rightarrow> int \<Rightarrow> lamb \<Rightarrow> error option \<times> lamb" where
  "sync_grads all_reduce world_size opt =
     (if \<not> distributed opt then (None, opt)
      else for_each_param (\<lambda>gk g pk. sync_grad (all_reduce gk pk) world_size) opt)"

section \<open>Lamb.step\<close>

text \<open>Lines 102-110: the state of a parameter met for the first time.\<close>

definition init_state :: "(dtype \<Rightarrow> real \<Rightarrow> real) \<Rightarrow> param \<Rightarrow> pstate" where
  "init_state rnd p =
     \<lparr>step = 0,
      exp_avg = zeros_like (data p) Float32,
      exp_avg_sq = zeros_like (data p) Float32,
      data_fp32 = (if dtype (data p) = BFloat16 then Some (to_dtype rnd (data p) Float32) else None),
      weight_norm = None, adam_norm = None, trust_ratio = None\<rparr>"

text \<open>
  Lines 137-151: the trust ratio. The result is the update direction (with the decay
  added in place), the ratio that scales the update, the three values stored in the state
  when the weight decay is not zero, and the divisors with which
  \<open>weight_norm / adam_norm\<close> was evaluated, in order.
\<close>

definition trust_block ::
  "bool \<Rightarrow> real \<Rightarrow> tensor \<Rightarrow> tensor \<Rightarrow> tensor \<times> real \<times> (real \<times> real \<times> real) option \<times> real list" where
  "trust_block adam_mode wd d adam_step0 =
     (if wd \<noteq> 0 then
        (let adam_step = add_inplace adam_step0 d wd;
             weight_norm = l2norm d;
             adam_norm = l2norm adam_step;
             (ratio, divisors) =
               (if weight_norm = 0 \<or> adam_norm = 0 then (1, [])
                else (weight_norm / adam_norm, [adam_norm]));
             ratio' = (if adam_mode then 1 else ratio)
         in (adam_step, ratio', Some (weight_norm, adam_norm, ratio'), divisors))
      else (adam_step0, 1, None, []))"

text \<open>
  Lines 90-155: the body of the loop for one parameter of a group with the given
  hyperparameters. \<open>state["data_fp32"]\<close> raises \<open>KeyError\<close> when a state that was
  created for another storage type lacks the key.
\<close>

definition step_param ::
  "(dtype \<Rightarrow> real \<Rightarrow> real) \<Rightarrow> bool \<Rightarrow> bool \<Rightarrow> real \<Rightarrow> real \<times> real \<Rightarrow> real \<Rightarrow> real \<Rightarrow>
   slot \<Rightarrow> error option \<times> slot" where
  "step_param rnd adam_mode bias_corr lr0 betas0 eps0 wd s =
     (case grad (param s) of
        None \<Rightarrow> (None, s)
      | Some g0 \<Rightarrow>
          (let bf16_param = (dtype (data (param s)) = BFloat16) in
           if is_sparse g0 then
             (Some (RuntimeError ''Lamb does not support sparse gradients, consider SparseAdam instad.''), s)
           else
             (let st0 = (case state s of None \<Rightarrow> init_state rnd (param s) | Some st \<Rightarrow> st) in
              case (if bf16_param then
                      (case data_fp32 st0 of
                         None \<Rightarrow> Inl (KeyError ''data_fp32'')
                       | Some d \<Rightarrow> Inr (to_dtype rnd g0 Float32, d))
                    else Inr (g0, data (param s))) of
                Inl e \<Rightarrow> (Some e, s\<lparr>state := Some st0\<rparr>)
              | Inr (g, d) \<Rightarrow>
                  (let (beta1, beta2) = betas0;
                       n = step st0 + 1;
                       m = add_inplace (mul_inplace (exp_avg st0) beta1) g (1 - beta1);
                       v = addcmul_inplace (mul_inplace (exp_avg_sq st0) beta2) (1 - beta2) g g;
                       step_size = lr0;
                       exp_avg_hat = (if bias_corr then truediv m (1 - beta1 ^ n) else m);
                       exp_avg_sq_hat = (if bias_corr then truediv v (1 - beta2 ^ n) else v);
                       adam_step0 = tdiv exp_avg_hat (add_scalar (tsqrt exp_avg_sq_hat) eps0);
                       (adam_step, ratio, norms, divisors) = trust_block adam_mode wd d adam_step0;
                       d' = add_inplace d adam_step (- step_size * ratio);
                       st1 = st0\<lparr>step := n, exp_avg := m, exp_avg_sq := v\<rparr>;
                       st2 = (case norms of
                                None \<Rightarrow> st1
                              | Some (wn, an, tr) \<Rightarrow>
                                  st1\<lparr>weight_norm := Some wn, adam_norm := Some an,
                                      trust_ratio := Some tr\<rparr>);
                       st3 = (if bf16_param then st2\<lparr>data_fp32 := Some d'\<rparr> else st2);
                       p' = (param s)\<lparr>data := (if bf16_param then to_dtype rnd d' BFloat16 else d')\<rparr>
                   in (None, \<lparr>param = p', state = Some st3\<rparr>)))))"

text \<open>Lines 88-155: the loop over the parameters of every group, with the group's
  hyperparameters.\<close>

definition step_loop :: "(dtype \<Rightarrow> real \<Rightarrow> real) \<Rightarrow> lamb \<Rightarrow> error option \<times> lamb" where
  "step_loop rnd opt =
     for_each_param
       (\<lambda>gk g pk. step_param rnd (adam opt) (bias_correction opt)
                     (lr g) (betas g) (eps g) (weight_decay g))
       opt"

text \<open>
  Lines 74-157. The closure is the caller's code: it returns the loss and may change the
  parameters and their gradients (it "reevaluates the model"), so it maps the optimizer's
  view of them to a new one. The result is the exception raised or the loss returned, and
  the optimizer as the call leaves it.
\<close>

definition Lamb_step ::
  "(dtype \<Rightarrow> real \<Rightarrow> real) \<Rightarrow> (nat \<Rightarrow> nat \<Rightarrow> tensor \<Rightarrow> tensor) \<Rightarrow> int \<Rightarrow>
   (lamb \<Rightarrow> real \<times> lamb) option \<Rightarrow> lamb \<Rightarrow> (error + real option) \<times> lamb" where
  "Lamb_step rnd all_reduce world_size closure opt =
     (case (case closure of None \<Rightarrow> (None, opt) | Some c \<Rightarrow> (case c opt of (l, opt0) \<Rightarrow> (Some l, opt0))) of
        (loss, opt1) \<Rightarrow>
          (case (if perform_allreduce opt1 then sync_grads all_reduce world_size opt1
                 else (None, opt1)) of
             (Some e, opt2) \<Rightarrow> (Inl e, opt2)
           | (None, opt2) \<Rightarrow>
               (case step_loop rnd opt2 of
                  (Some e, opt3) \<Rightarrow> (Inl e, opt3)
                | (None, opt3) \<Rightarrow> (Inr loss, opt3))))"

section \<open>The training loops\<close>

text \<open>
  What one micro-batch does, as the list of its effects in order: the forward pass, the
  backward pass with the loss it is run on and whether it runs inside \<open>model.no_sync()\<close>,
  the optimizer step, the clearing of the gradients, and the scheduler step.
\<close>

datatype event = Forward | Backward real bool | OptStep | ZeroGrad | SchedulerStep

text \<open>
  \<open>train_step\<close> of \<open>ML/ResNet50/Torch/train.py\<close>, lines 24-44. \<open>freq\<close> is
  \<open>gc["data"]["gradient_accumulation_freq"]\<close>, \<open>is_ddp\<close> the \<open>isinstance\<close> test and
  \<open>raw_loss\<close> the value of \<open>loss_fn(logits, y)\<close>. The modulo raises for a frequency of 0.
  The result is the effects and the loss returned.
\<close>

definition train_step :: "int \<Rightarrow> bool \<Rightarrow> real \<Rightarrow> int \<Rightarrow> error + event list \<times> real" where
  "train_step freq is_ddp raw_loss batch_idx =
     (if freq = 0 then Inl (ZeroDivisionError ''integer modulo by zero'')
      else if (batch_idx + 1) mod freq \<noteq> 0 then
        (if is_ddp then
           (let loss = raw_loss / real_of_int freq in Inr ([Forward, Backward loss True], loss))
         else
           (let loss = raw_loss / real_of_int freq in Inr ([Forward, Backward loss False], loss)))
      else
        (let loss = raw_loss / real_of_int freq
         in Inr ([Forward, Backward loss False, OptStep, ZeroGrad], loss)))"

text \<open>Lines 210-215: \<open>for i, data in enumerate(train_data): train_step(..., i)\<close>, one raw
  loss per micro-batch; the effects of each micro-batch, in order.\<close>

fun train_epoch :: "int \<Rightarrow> bool \<Rightarrow> int \<Rightarrow> real list \<Rightarrow> error + event list list" where
  "train_epoch freq is_ddp i [] = Inr []"
| "train_epoch freq is_ddp i (raw_loss # rest) =
     (case train_step freq is_ddp raw_loss i of
        Inl e \<Rightarrow> Inl e
      | Inr (evs, loss) \<Rightarrow>
          (case train_epoch freq is_ddp (i + 1) rest of
             Inl e \<Rightarrow> Inl e
           | Inr r \<Rightarrow> Inr (evs # r)))"

text \<open>
  One pass of the loop of \<open>ML_HPC/DeepCAM/Torch/train.py\<close>, lines 129-137. \<open>ga\<close> is
  \<open>gc["data"]["gradient_accumulation"]\<close> and \<open>len_train_data\<close> is \<open>len(train_data)\<close>.
  For a frequency of 0 the modulo raises once the backward pass has run on a loss that is
  not finite; the model keeps the exception only.
\<close>

definition deepcam_iteration :: "int \<Rightarrow> int \<Rightarrow> real \<Rightarrow> int \<Rightarrow> error + event list" where
  "deepcam_iteration ga len_train_data raw_loss idx =
     (let loss = raw_loss / real_of_int ga in
      if ga = 0 then Inl (ZeroDivisionError ''integer modulo by zero'')
      else if (idx + 1) mod ga = 0 \<or> idx + 1 = len_train_data then
        Inr [Forward, Backward loss False, OptStep, ZeroGrad, SchedulerStep]
      else Inr [Forward, Backward loss False])"

fun deepcam_epoch_from :: "int \<Rightarrow> int \<Rightarrow> int \<Rightarrow> real list \<Rightarrow> error + event list list" where
  "deepcam_epoch_from ga len_train_data idx [] = Inr []"
| "deepcam_epoch_from ga len_train_data idx (raw_loss # rest) =
     (case deepcam_iteration ga len_train_data raw_loss idx of
        Inl e \<Rightarrow> Inl e
      | Inr evs \<Rightarrow>
          (case deepcam_epoch_from ga len_train_data (idx + 1) rest of
             Inl e \<Rightarrow> Inl e
           | Inr r \<Rightarrow> Inr (evs # r)))"

definition deepcam_epoch :: "int \<Rightarrow> real list \<Rightarrow> error + event list list" where
  "deepcam_epoch ga raw_losses = deepcam_epoch_from ga (int (length raw_losses)) 0 raw_losses"

text \<open>The micro-batches of an epoch at which the optimizer step ran, the losses the
  backward passes of a micro-batch were run on, and what a micro-batch did before its first
  backward pass.\<close>

definition step_indices :: "event list list \<Rightarrow> nat list" where
  "step_indices evss = filter (\<lambda>i. OptStep \<in> set (evss ! i)) [0..<length evss]"

fun backward_losses :: "event list \<Rightarrow> real list" where
  "backward_losses [] = []"
| "backward_losses (Backward loss no_sync # evs) = loss # backward_losses evs"
| "backward_losses (ev # evs) = backward_losses evs"

fun before_backward :: "event list \<Rightarrow> event list" where
  "before_backward [] = []"
| "before_backward (Backward loss no_sync # evs) = []"
| "before_backward (ev # evs) = ev # before_backward evs"

section \<open>All ranks together\<close>

text \<open>
  The elementwise sum of the buffers of the ranks, which is what a sum all-reduce leaves
  in every one of them.
\<close>

fun vsum :: "real list list \<Rightarrow> real list" where
  "vsum [] = []"
| "vsum [v] = v"
| "vsum (v # w # vs) = map2 (+) v (vsum (w # vs))"

text \<open>The spec's words for the flat path: an all-reduce (sum) of the buffers followed by
  a division by the number of ranks.\<close>

definition all_reduce_then_divide :: "real list list \<Rightarrow> real list" where
  "all_reduce_then_divide bufs = map (\<lambda>x. x / real (length bufs)) (vsum bufs)"

text \<open>Every parameter of the optimizer has a gradient.\<close>

definition has_all_grads :: "lamb \<Rightarrow> bool" where
  "has_all_grads opt = (\<forall>g \<in> set (param_groups opt). \<forall>s \<in> set (params g). grad (param s) \<noteq> None)"

section \<open>custom_reduce_hook\<close>

text \<open>
  \<open>ML/ResNet50/Torch/train.py\<close>, lines 62-86, as one rank runs it. The hook hands values
  from one callback to the next through futures, so the model follows the values: lists
  of tensors, the flat bucket buffer (a tensor of one dimension) and tensors of no
  dimension. Indexing a tensor of one dimension gives an element as a tensor of no
  dimension, and indexing that raises \<open>IndexError\<close>.
\<close>

datatype pyval = TensorList "pyval list" | Tensor1 "real list" | Tensor0 real

fun getitem0 :: "pyval \<Rightarrow> error + pyval" where
  "getitem0 (TensorList []) = Inl (IndexError ''list index out of range'')"
| "getitem0 (TensorList (v # vs)) = Inr v"
| "getitem0 (Tensor1 []) = Inl (IndexError ''index 0 is out of bounds for dimension 0 with size 0'')"
| "getitem0 (Tensor1 (x # xs)) = Inr (Tensor0 x)"
| "getitem0 (Tensor0 x) = Inl (IndexError ''invalid index of a 0-dim tensor'')"

text \<open>
  What becomes of a collective on this rank depends on the other ranks of its group: it
  completes before the caller goes on, it completes later, or it never completes because
  a rank of the group never joins. In the first two cases it leaves new elements in the
  tensor. On one rank that is a parameter of the model for each of the three collectives:
  \<open>rd\<close> for \<open>dist.reduce\<close>, \<open>ar\<close> for \<open>dist.all_reduce\<close> and \<open>bc\<close> for
  \<open>dist.broadcast\<close>.
\<close>

datatype 'a completion = Done 'a | Later 'a | Never

text \<open>What a call or a future comes to: a value, an exception, or nothing ever.\<close>

datatype outcome = Returns pyval | Raises error | Blocks

text \<open>The collective on the tensor it is given, which keeps its shape; a list is not a
  tensor.\<close>

fun collective :: "(real list \<Rightarrow> real list completion) \<Rightarrow> pyval \<Rightarrow> error + pyval completion" where
  "collective f (Tensor1 xs) = Inr (map_completion Tensor1 (f xs))"
| "collective f (Tensor0 x) =
     Inr (map_completion (\<lambda>ys. Tensor0 (case ys of [] \<Rightarrow> x | y # _ \<Rightarrow> y)) (f [x]))"
| "collective f (TensorList vs) = Inl (TypeError ''tensor must be a Tensor, not list'')"

text \<open>
  \<open>dist.reduce(tensor, dst, group=..., async_op=True)\<close>: \<open>dst\<close> is a rank of the whole
  world, and the call raises \<open>ValueError\<close> when the group does not hold it. The result is
  the exception of the call or what becomes of the collective.
\<close>

definition dist_reduce ::
  "(real list \<Rightarrow> real list completion) \<Rightarrow> int \<Rightarrow> int list \<Rightarrow> pyval \<Rightarrow> error + pyval completion" where
  "dist_reduce rd dst group_ranks tensor =
     (case collective rd tensor of
        Inl e \<Rightarrow> Inl e
      | Inr c \<Rightarrow>
          if dst \<notin> set group_ranks then Inl (ValueError ''Global rank is not part of group'')
          else Inr c)"

text \<open>
  \<open>dist.all_reduce(tensor, op, group=..., async_op=True)\<close>: the second positional
  parameter is the reduction, a \<open>ReduceOp\<close>; given an integer the call raises
  \<open>TypeError\<close>.
\<close>

datatype op_arg = ReduceOp_SUM | Int_arg int

definition dist_all_reduce ::
  "(real list \<Rightarrow> real list completion) \<Rightarrow> op_arg \<Rightarrow> pyval \<Rightarrow> error + pyval completion" where
  "dist_all_reduce ar op tensor =
     (case collective ar tensor of
        Inl e \<Rightarrow> Inl e
      | Inr c \<Rightarrow>
          (case op of
             Int_arg n \<Rightarrow> Inl (TypeError ''op must be a ReduceOp, not int'')
           | ReduceOp_SUM \<Rightarrow> Inr c))"

text \<open>\<open>dist.broadcast(tensor, src, group=...)\<close>, a blocking call: it returns once the
  collective has completed, with the tensor overwritten, and never if it does not.\<close>

definition dist_broadcast ::
  "(real list \<Rightarrow> real list completion) \<Rightarrow> int \<Rightarrow> int list \<Rightarrow> pyval \<Rightarrow> outcome" where
  "dist_broadcast bc src group_ranks tensor =
     (case collective bc tensor of
        Inl e \<Rightarrow> Raises e
      | Inr c \<Rightarrow>
          if src \<notin> set group_ranks then Raises (ValueError ''Global rank is not part of group'')
          else (case c of Done v \<Rightarrow> Returns v | Later v \<Rightarrow> Returns v | Never \<Rightarrow> Blocks))"

text \<open>
  \<open>work.get_future().then(callback)\<close>: the future of a collective holds the list of its
  tensors, and the callback runs once the collective has completed; the new future holds
  what the callback returns or raises (\<open>torch.futures.Future.then\<close>), and never completes
  if the collective does not.
\<close>

fun then_collective :: "pyval completion \<Rightarrow> (pyval \<Rightarrow> outcome) \<Rightarrow> outcome" where
  "then_collective (Done v) callback = callback (TensorList [v])"
| "then_collective (Later v) callback = callback (TensorList [v])"
| "then_collective Never callback = Blocks"

text \<open>\<open>fut.then(callback)\<close> on a future made by \<open>then\<close>: the callback is given the value
  the future holds; when the future holds an exception, \<open>fut.value()\<close> in the callback
  raises it again.\<close>

fun then_value :: "outcome \<Rightarrow> (pyval \<Rightarrow> outcome) \<Rightarrow> outcome" where
  "then_value (Returns v) callback = callback v"
| "then_value (Raises e) callback = Raises e"
| "then_value Blocks callback = Blocks"

text \<open>\<open>t / gc.world_size\<close>.\<close>

fun truediv_val :: "pyval \<Rightarrow> int \<Rightarrow> outcome" where
  "truediv_val (Tensor1 xs) c = Returns (Tensor1 (map (\<lambda>x. x / real_of_int c) xs))"
| "truediv_val (Tensor0 x) c = Returns (Tensor0 (x / real_of_int c))"
| "truediv_val (TensorList vs) c =
     Raises (TypeError ''unsupported operand type(s) for /: list and int'')"

text \<open>
  The four inner functions; \<open>fut_value\<close> is \<open>fut.value()\<close> of the future a callback is
  given, and \<open>local_ranks\<close> holds the ranks of the group of that name.

  Lines 76-79, \<open>_local_broadcast\<close>.
\<close>

definition hook_local_broadcast ::
  "(real list \<Rightarrow> real list completion) \<Rightarrow> int list \<Rightarrow> pyval \<Rightarrow> outcome" where
  "hook_local_broadcast bc local_ranks fut_value =
     (case getitem0 fut_value of
        Inl e \<Rightarrow> Raises e
      | Inr tensor \<Rightarrow> dist_broadcast bc 0 local_ranks tensor)"

text \<open>
  Lines 73-74, \<open>_all_reduce_zeros\<close>. The call passes \<open>0\<close> where \<open>dist.all_reduce\<close> takes
  the reduction. Past the call, \<open>.value()\<close> is read from the future of \<open>then\<close> at once and
  raises unless the all-reduce has completed by then, in which case the callback
  \<open>_local_broadcast\<close> has run; the value is what that callback returned, and \<open>[0]\<close>
  indexes it.
\<close>

definition hook_all_reduce_zeros ::
  "(real list \<Rightarrow> real list completion) \<Rightarrow> (real list \<Rightarrow> real list completion) \<Rightarrow>
   int list \<Rightarrow> pyval \<Rightarrow> outcome" where
  "hook_all_reduce_zeros ar bc local_ranks fut_value =
     (case getitem0 fut_value of
        Inl e \<Rightarrow> Raises e
      | Inr t \<Rightarrow>
          (case dist_all_reduce ar (Int_arg 0) t of
             Inl e \<Rightarrow> Raises e
           | Inr (Done t') \<Rightarrow>
               (case hook_local_broadcast bc local_ranks (TensorList [t']) of
                  Returns v \<Rightarrow> (case getitem0 v of Inl e \<Rightarrow> Raises e | Inr x \<Rightarrow> Returns x)
                | Raises e \<Rightarrow> Raises e
                | Blocks \<Rightarrow> Blocks)
           | Inr (Later t') \<Rightarrow> Raises (RuntimeError ''the future is not complete'')
           | Inr Never \<Rightarrow> Raises (RuntimeError ''the future is not complete'')))"

text \<open>Lines 66-71, \<open>_reduce\<close>: the reduce to rank 0, then the choice of the next callback
  by \<open>gc.rank % taskspernode\<close>.\<close>

definition hook_reduce ::
  "(real list \<Rightarrow> real list completion) \<Rightarrow> (real list \<Rightarrow> real list completion) \<Rightarrow>
   (real list \<Rightarrow> real list completion) \<Rightarrow> int \<Rightarrow> int \<Rightarrow> int list \<Rightarrow> pyval \<Rightarrow> outcome" where
  "hook_reduce rd ar bc rank taskspernode local_ranks tensor =
     (case dist_reduce rd 0 local_ranks tensor of
        Inl e \<Rightarrow> Raises e
      | Inr fut \<Rightarrow>
          if taskspernode = 0 then Raises (ZeroDivisionError ''integer modulo by zero'')
          else if rank mod taskspernode = 0 then
            then_collective fut (hook_all_reduce_zeros ar bc local_ranks)
          else then_collective fut (hook_local_broadcast bc local_ranks))"

text \<open>Lines 81-82, \<open>_dev\<close>.\<close>

definition hook_dev :: "int \<Rightarrow> pyval \<Rightarrow> outcome" where
  "hook_dev world_size fut_value =
     (case getitem0 fut_value of
        Inl e \<Rightarrow> Raises e
      | Inr t \<Rightarrow> truediv_val t world_size)"

text \<open>Lines 84-86: what the future that the hook returns comes to, on the rank \<open>rank\<close>
  with the bucket \<open>buffer\<close>.\<close>

definition custom_reduce_hook ::
  "(real list \<Rightarrow> real list completion) \<Rightarrow> (real list \<Rightarrow> real list completion) \<Rightarrow>
   (real list \<Rightarrow> real list completion) \<Rightarrow> int \<Rightarrow> int \<Rightarrow> int \<Rightarrow> int list \<Rightarrow> real list \<Rightarrow> outcome" where
  "custom_reduce_hook rd ar bc rank taskspernode world_size local_ranks buffer =
     then_value (hook_reduce rd ar bc rank taskspernode local_ranks (Tensor1 buffer))
       (hook_dev world_size)"

section \<open>Observations and invariants\<close>

text \<open>What \<open>for_each_param\<close> does to one group: the exception of the inner loop and the
  group with the parameters as the inner loop leaves them.\<close>

definition group_body ::
  "(nat \<Rightarrow> group \<Rightarrow> nat \<Rightarrow> slot \<Rightarrow> error option \<times> slot) \<Rightarrow> nat \<Rightarrow> group \<Rightarrow> error option \<times> group" where
  "group_body body gk g =
     (fst (for_each (body gk g) 0 (params g)), g\<lparr>params := snd (for_each (body gk g) 0 (params g))\<rparr>)"

text \<open>The two stages of \<open>Lamb_step\<close> before the loop: the optimizer after \<open>closure()\<close>,
  and the outcome of the gated call of \<open>sync_grads\<close>.\<close>

definition after_closure :: "(lamb \<Rightarrow> real \<times> lamb) option \<Rightarrow> lamb \<Rightarrow> lamb" where
  "after_closure closure opt = (case closure of None \<Rightarrow> opt | Some c \<Rightarrow> snd (c opt))"

definition after_sync ::
  "(nat \<Rightarrow> nat \<Rightarrow> tensor \<Rightarrow> tensor) \<Rightarrow> int \<Rightarrow> lamb \<Rightarrow> error option \<times> lamb" where
  "after_sync ar ws opt1 = (if perform_allreduce opt1 then sync_grads ar ws opt1 else (None, opt1))"

text \<open>What a call can be observed to change: the gradients of all parameters, the
  hyperparameters of the groups, and the flags of the optimizer.\<close>

definition grads :: "lamb \<Rightarrow> tensor option list list" where
  "grads opt = map (\<lambda>g. map (\<lambda>s. grad (param s)) (params g)) (param_groups opt)"

definition hyperparameters :: "lamb \<Rightarrow> (real \<times> (real \<times> real) \<times> real \<times> real) list" where
  "hyperparameters opt = map (\<lambda>g. (lr g, betas g, eps g, weight_decay g)) (param_groups opt)"

definition flags :: "lamb \<Rightarrow> bool \<times> bool \<times> bool \<times> bool" where
  "flags opt = (adam opt, bias_correction opt, perform_allreduce opt, distributed opt)"

text \<open>
  The invariant of a parameter's state: both moments have the shape and the number of
  elements of the parameter and are float32, and the float32 copy of the value is there
  exactly for a bfloat16 parameter, with the parameter's shape.
\<close>

definition state_matches :: "param \<Rightarrow> pstate \<Rightarrow> bool" where
  "state_matches p st =
     (shape (exp_avg st) = shape (data p) \<and> length (vals (exp_avg st)) = length (vals (data p))
    \<and> dtype (exp_avg st) = Float32
    \<and> shape (exp_avg_sq st) = shape (data p) \<and> length (vals (exp_avg_sq st)) = length (vals (data p))
    \<and> dtype (exp_avg_sq st) = Float32
    \<and> (case data_fp32 st of
          None \<Rightarrow> dtype (data p) \<noteq> BFloat16
        | Some d \<Rightarrow> dtype (data p) = BFloat16 \<and> dtype d = Float32
                    \<and> shape d = shape (data p) \<and> length (vals d) = length (vals (data p))))"

text \<open>A slot is well formed when its state, if any, satisfies the invariant and its
  gradient, if any, is dense and has as many elements as the parameter (torch refuses a
  gradient of another shape).\<close>

definition slot_ok :: "slot \<Rightarrow> bool" where
  "slot_ok s =
     ((case state s of None \<Rightarrow> True | Some st \<Rightarrow> state_matches (param s) st)
    \<and> (case grad (param s) of
          None \<Rightarrow> True
        | Some g \<Rightarrow> \<not> is_sparse g \<and> length (vals g) = length (vals (data (param s)))))"

text \<open>\<open>state["step"]\<close>, read as 0 while the state is empty.\<close>

definition steps_of :: "slot \<Rightarrow> nat" where
  "steps_of s = (case state s of None \<Rightarrow> 0 | Some st \<Rightarrow> step st)"

text \<open>What one pass of the loop of \<open>step\<close> does to a well-formed slot: the slot stays
  well formed, the step count grows by one exactly when there is a gradient, the state
  exists afterwards in that case, and the parameter keeps its shape and storage type.\<close>

definition step_effect :: "slot \<Rightarrow> slot \<Rightarrow> bool" where
  "step_effect s s' =
     (slot_ok s'
    \<and> steps_of s' = steps_of s + (if grad (param s) = None then 0 else 1)
    \<and> (grad (param s) \<noteq> None \<longrightarrow> state s' \<noteq> None)
    \<and> shape (data (param s')) = shape (data (param s))
    \<and> dtype (data (param s')) = dtype (data (param s)))"

text \<open>Storage types with fewer bits than the float32 baseline.\<close>

definition reduced_precision :: "dtype \<Rightarrow> bool" where
  "reduced_precision d = (d = BFloat16 \<or> d = Float16)"

section \<open>Example values\<close>

text \<open>Two elements of value 1 with gradient 0.1 each, learning rate 0.01, betas 0.9 and
  0.999, epsilon 1e-6 and weight decay 0.01; \<open>no_rounding\<close> casts without rounding.\<close>

definition no_rounding :: "dtype \<Rightarrow> real \<Rightarrow> real" where
  "no_rounding d x = x"

definition ex_data :: "dtype \<Rightarrow> tensor" where
  "ex_data d = \<lparr>dtype = d, shape = [2], vals = [1, 1], is_sparse = False\<rparr>"

definition ex_grad :: "dtype \<Rightarrow> bool \<Rightarrow> tensor" where
  "ex_grad d sp = \<lparr>dtype = d, shape = [2], vals = [1/10, 1/10], is_sparse = sp\<rparr>"

definition ex_slot :: "dtype \<Rightarrow> tensor option \<Rightarrow> slot" where
  "ex_slot d g = \<lparr>param = \<lparr>data = ex_data d, grad = g\<rparr>, state = None\<rparr>"

definition ex_opt :: "slot list \<Rightarrow> bool \<Rightarrow> bool \<Rightarrow> lamb" where
  "ex_opt ss pa di =
     \<lparr>param_groups = [\<lparr>params = ss, lr = 1/100, betas = (9/10, 999/1000),
                        eps = 1/1000000, weight_decay = 1/100\<rparr>],
      adam = False, bias_correction = True, perform_allreduce = pa, distributed = di\<rparr>"

section \<open>Hyperparameter validation\<close>

text \<open>
  C6. Construction raises a \<open>ValueError\<close> exactly when the learning rate is negative, the
  epsilon is negative, or one of the betas lies outside the interval from 0 (included)
  to 1 (excluded); for in-range values it succeeds, given that the base class constructor
  accepts the parameters.
\<close>

theorem Lamb_init_raises_iff_out_of_range:
  assumes "super_init ps lr0 (b1, b2) eps0 wd0 = Inr gs"
  shows "((\<exists>msg. Lamb_init super_init di ws ps lr0 (b1, b2) eps0 wd0 a bc pa = Inl (ValueError msg))
            = (lr0 < 0 \<or> eps0 < 0 \<or> b1 < 0 \<or> 1 \<le> b1 \<or> b2 < 0 \<or> 1 \<le> b2))
       \<and> ((Lamb_init super_init di ws ps lr0 (b1, b2) eps0 wd0 a bc pa =
              Inr \<lparr>param_groups = gs, adam = a, bias_correction = bc, perform_allreduce = pa,
                   distributed = (di \<and> ws > 1)\<rparr>)
            = (0 \<le> lr0 \<and> 0 \<le> eps0 \<and> 0 \<le> b1 \<and> b1 < 1 \<and> 0 \<le> b2 \<and> b2 < 1))"
  using assms by (auto simp: Lamb_init_def)

theorem Lamb_init_raises_iff_out_of_range_witness:
  "Lamb_init single_group True 4 [param (ex_slot Float32 None)] (1/100) (9/10, 999/1000) (1/1000000)
     (1/100) False True False = Inr (ex_opt [ex_slot Float32 None] False True)
 \<and> (\<exists>msg. Lamb_init single_group True 4 [param (ex_slot Float32 None)] (-1) (9/10, 999/1000)
        (1/1000000) (1/100) False True False = Inl (ValueError msg))
 \<and> (\<exists>msg. Lamb_init single_group True 4 [param (ex_slot Float32 None)] (1/100) (9/10, 1)
        (1/1000000) (1/100) False True False = Inl (ValueError msg))"
proof -
  have s: "single_group [param (ex_slot Float32 None)] l (9/10, b) (1/1000000) (1/100) =
      Inr [\<lparr>params = [ex_slot Float32 None], lr = l, betas = (9/10, b), eps = 1/1000000,
            weight_decay = 1/100\<rparr>]"
    for l b
    by (simp add: single_group_def ex_slot_def)
  show ?thesis
    using Lamb_init_raises_iff_out_of_range [where super_init = single_group
        and ps = "[param (ex_slot Float32 None)]" and ?lr0.0 = "1/100" and ?b1.0 = "9/10"
        and ?b2.0 = "999/1000" and ?eps0.0 = "1/1000000" and ?wd0.0 = "1/100" and di = True and ws = 4
        and a = False and bc = True and pa = False, OF s]
      Lamb_init_raises_iff_out_of_range [where super_init = single_group
        and ps = "[param (ex_slot Float32 None)]" and ?lr0.0 = "-1" and ?b1.0 = "9/10"
        and ?b2.0 = "999/1000" and ?eps0.0 = "1/1000000" and ?wd0.0 = "1/100" and di = True and ws = 4
        and a = False and bc = True and pa = False, OF s]
      Lamb_init_raises_iff_out_of_range [where super_init = single_group
        and ps = "[param (ex_slot Float32 None)]" and ?lr0.0 = "1/100" and ?b1.0 = "9/10"
        and ?b2.0 = "1" and ?eps0.0 = "1/1000000" and ?wd0.0 = "1/100" and di = True and ws = 4
        and a = False and bc = True and pa = False, OF s]
    by (simp add: ex_opt_def)
qed

section \<open>Loops: what an exception leaves behind\<close>

lemma for_each_Cons_snd:
  "snd (for_each body i (x # xs)) =
     snd (body i x) # (if fst (body i x) = None then snd (for_each body (Suc i) xs) else xs)"
  by (cases "body i x"; cases "fst (body i x)"; cases "for_each body (Suc i) xs") auto

lemma for_each_Cons_fst:
  "fst (for_each body i (x # xs)) =
     (case fst (body i x) of Some e \<Rightarrow> Some e | None \<Rightarrow> fst (for_each body (Suc i) xs))"
  by (cases "body i x"; cases "fst (body i x)"; cases "for_each body (Suc i) xs") auto

lemma for_each_length: "length (snd (for_each body i xs)) = length xs"
  by (induction xs arbitrary: i) (simp_all add: for_each_Cons_snd del: for_each.simps(2))

lemma for_each_rel:
  assumes "\<And>i x. x \<in> set xs \<Longrightarrow> R x (snd (body i x))" and "\<And>x. x \<in> set xs \<Longrightarrow> R x x"
  shows "list_all2 R xs (snd (for_each body i xs))"
  using assms
proof (induction xs arbitrary: i)
  case Nil
  then show ?case by simp
next
  case (Cons x xs)
  have tl: "list_all2 R xs xs"
    using Cons.prems(2) by (simp add: list_all2_same)
  have hd: "R x (snd (body i x))"
    using Cons.prems(1) by simp
  have ih: "list_all2 R xs (snd (for_each body (Suc i) xs))"
    using Cons.IH Cons.prems by simp
  show ?case
    using tl hd ih by (simp add: for_each_Cons_snd del: for_each.simps(2))
qed

lemma for_each_frame:
  "j < length xs \<Longrightarrow> snd (body (i + j) (xs ! j)) = xs ! j \<Longrightarrow> snd (for_each body i xs) ! j = xs ! j"
proof (induction xs arbitrary: i j)
  case Nil
  then show ?case by simp
next
  case (Cons x xs)
  show ?case
  proof (cases j)
    case 0
    then show ?thesis using Cons.prems by (simp add: for_each_Cons_snd del: for_each.simps(2))
  next
    case (Suc k)
    then have "snd (for_each body (Suc i) xs) ! k = xs ! k"
      using Cons.IH [of k "Suc i"] Cons.prems by simp
    then show ?thesis using Suc by (simp add: for_each_Cons_snd del: for_each.simps(2))
  qed
qed

lemma for_each_raises:
  "j < length xs \<Longrightarrow> fst (body (i + j) (xs ! j)) \<noteq> None \<Longrightarrow> fst (for_each body i xs) \<noteq> None"
proof (induction xs arbitrary: i j)
  case Nil
  then show ?case by simp
next
  case (Cons x xs)
  show ?case
  proof (cases j)
    case 0
    then show ?thesis using Cons.prems
      by (auto simp add: for_each_Cons_fst simp del: for_each.simps(2) split: option.splits)
  next
    case (Suc k)
    then have "fst (for_each body (Suc i) xs) \<noteq> None"
      using Cons.IH [of k "Suc i"] Cons.prems by simp
    then show ?thesis
      by (auto simp add: for_each_Cons_fst simp del: for_each.simps(2) split: option.splits)
  qed
qed

lemma for_each_no_error:
  "(\<And>i x. x \<in> set xs \<Longrightarrow> fst (body i x) = None) \<Longrightarrow> fst (for_each body i xs) = None"
  by (induction xs arbitrary: i) (simp_all add: for_each_Cons_fst del: for_each.simps(2))

lemma for_each_nth_cases:
  "j < length xs \<Longrightarrow>
   snd (for_each body i xs) ! j = snd (body (i + j) (xs ! j)) \<or> snd (for_each body i xs) ! j = xs ! j"
proof (induction xs arbitrary: i j)
  case Nil
  then show ?case by simp
next
  case (Cons x xs)
  show ?case
  proof (cases j)
    case 0
    then show ?thesis by (simp add: for_each_Cons_snd del: for_each.simps(2))
  next
    case (Suc k)
    then have "snd (for_each body (Suc i) xs) ! k = snd (body (Suc i + k) (xs ! k))
        \<or> snd (for_each body (Suc i) xs) ! k = xs ! k"
      using Cons.IH [of k "Suc i"] Cons.prems by simp
    then show ?thesis using Suc by (auto simp add: for_each_Cons_snd simp del: for_each.simps(2))
  qed
qed

lemma for_each_total:
  assumes "\<And>i x. x \<in> set xs \<Longrightarrow> fst (body i x) = None \<and> R x (snd (body i x))"
  shows "fst (for_each body i xs) = None \<and> list_all2 R xs (snd (for_each body i xs))"
  using assms
  by (induction xs arbitrary: i)
     (simp_all add: for_each_Cons_fst for_each_Cons_snd del: for_each.simps(2))

section \<open>The loop over all parameters\<close>

lemma for_each_param_alt:
  "for_each_param body opt =
     (fst (for_each (group_body body) 0 (param_groups opt)),
      opt\<lparr>param_groups := snd (for_each (group_body body) 0 (param_groups opt))\<rparr>)"
proof -
  have "(\<lambda>gk g. case for_each (body gk g) 0 (params g) of (e, ss) \<Rightarrow> (e, g\<lparr>params := ss\<rparr>))
      = group_body body"
    by (intro ext) (simp add: group_body_def case_prod_beta)
  then show ?thesis
    by (simp add: for_each_param_def case_prod_beta)
qed

lemma for_each_param_groups_length:
  "length (param_groups (snd (for_each_param body opt))) = length (param_groups opt)"
  by (simp add: for_each_param_alt for_each_length)

lemma for_each_param_group_cases:
  assumes "gk < length (param_groups opt)"
  shows "param_groups (snd (for_each_param body opt)) ! gk = snd (group_body body gk (param_groups opt ! gk))
       \<or> param_groups (snd (for_each_param body opt)) ! gk = param_groups opt ! gk"
  using for_each_nth_cases [OF assms, of "group_body body" 0]
  by (simp add: for_each_param_alt)

lemma for_each_param_params_length:
  assumes "gk < length (param_groups opt)"
  shows "length (params (param_groups (snd (for_each_param body opt)) ! gk))
       = length (params (param_groups opt ! gk))"
  using for_each_param_group_cases [OF assms, of body]
  by (auto simp: group_body_def for_each_length)

lemma for_each_param_frame:
  assumes "gk < length (param_groups opt)" and "pk < length (params (param_groups opt ! gk))"
    and "snd (body gk (param_groups opt ! gk) pk (slot_at opt gk pk)) = slot_at opt gk pk"
  shows "slot_at (snd (for_each_param body opt)) gk pk = slot_at opt gk pk"
proof -
  let ?g = "param_groups opt ! gk"
  have "snd (for_each (body gk ?g) 0 (params ?g)) ! pk = params ?g ! pk"
    using for_each_frame [OF assms(2), of "body gk ?g" 0] assms(3) by (simp add: slot_at_def)
  then show ?thesis
    using for_each_param_group_cases [OF assms(1), of body]
    by (auto simp: slot_at_def group_body_def)
qed

lemma for_each_param_raises:
  assumes "gk < length (param_groups opt)" and "pk < length (params (param_groups opt ! gk))"
    and "fst (body gk (param_groups opt ! gk) pk (slot_at opt gk pk)) \<noteq> None"
  shows "fst (for_each_param body opt) \<noteq> None"
proof -
  let ?g = "param_groups opt ! gk"
  have "fst (for_each (body gk ?g) 0 (params ?g)) \<noteq> None"
    using for_each_raises [OF assms(2), of "body gk ?g" 0] assms(3) by (simp add: slot_at_def)
  then have "fst (group_body body (0 + gk) ?g) \<noteq> None"
    by (simp add: group_body_def)
  then show ?thesis
    using for_each_raises [OF assms(1), of "group_body body" 0]
    by (simp add: for_each_param_alt)
qed

lemma for_each_param_rel:
  assumes "\<And>gk g pk s. R s (snd (body gk g pk s))" and "\<And>s. R s s"
  shows "list_all2 (\<lambda>g g'. list_all2 R (params g) (params g') \<and> group.more g' = group.more g
            \<and> lr g' = lr g \<and> betas g' = betas g \<and> eps g' = eps g \<and> weight_decay g' = weight_decay g)
          (param_groups opt) (param_groups (snd (for_each_param body opt)))
       \<and> adam (snd (for_each_param body opt)) = adam opt
       \<and> bias_correction (snd (for_each_param body opt)) = bias_correction opt
       \<and> perform_allreduce (snd (for_each_param body opt)) = perform_allreduce opt
       \<and> distributed (snd (for_each_param body opt)) = distributed opt"
proof -
  let ?Q = "\<lambda>g g'. list_all2 R (params g) (params g') \<and> group.more g' = group.more g
            \<and> lr g' = lr g \<and> betas g' = betas g \<and> eps g' = eps g \<and> weight_decay g' = weight_decay g"
  have a: "?Q g (snd (group_body body gk g))" for gk g
    using for_each_rel [of "params g" R "body gk g" 0] assms by (simp add: group_body_def)
  have b: "?Q g g" for g
    using assms(2) by (simp add: list_all2_same)
  have "list_all2 ?Q (param_groups opt) (snd (for_each (group_body body) 0 (param_groups opt)))"
    by (rule for_each_rel) (use a b in blast)+
  then show ?thesis
    by (simp add: for_each_param_alt)
qed

lemma for_each_param_no_error:
  assumes "\<And>gk g pk s. g \<in> set (param_groups opt) \<Longrightarrow> s \<in> set (params g) \<Longrightarrow> fst (body gk g pk s) = None"
  shows "fst (for_each_param body opt) = None"
proof -
  have "fst (group_body body gk g) = None" if "g \<in> set (param_groups opt)" for gk g
    using for_each_no_error [of "params g" "body gk g" 0] assms that by (simp add: group_body_def)
  then show ?thesis
    by (simp add: for_each_param_alt for_each_no_error)
qed

lemma for_each_param_total:
  assumes "\<And>gk g pk s. g \<in> set (param_groups opt) \<Longrightarrow> s \<in> set (params g) \<Longrightarrow>
             fst (body gk g pk s) = None \<and> R s (snd (body gk g pk s))"
  shows "fst (for_each_param body opt) = None
       \<and> list_all2 (\<lambda>g g'. list_all2 R (params g) (params g'))
            (param_groups opt) (param_groups (snd (for_each_param body opt)))"
proof -
  have "fst (group_body body gk g) = None
      \<and> list_all2 R (params g) (params (snd (group_body body gk g)))"
    if "g \<in> set (param_groups opt)" for gk g
    using for_each_total [of "params g" "body gk g" R 0] assms that by (simp add: group_body_def)
  then have "fst (for_each (group_body body) 0 (param_groups opt)) = None
      \<and> list_all2 (\<lambda>g g'. list_all2 R (params g) (params g'))
           (param_groups opt) (snd (for_each (group_body body) 0 (param_groups opt)))"
    by (intro for_each_total) blast
  then show ?thesis
    by (simp add: for_each_param_alt)
qed

section \<open>One parameter in step\<close>

lemma step_param_absent: "grad (param s) = None \<Longrightarrow> step_param rnd am bc l b e w s = (None, s)"
  by (simp add: step_param_def)

lemma step_param_sparse:
  "grad (param s) = Some g \<Longrightarrow> is_sparse g \<Longrightarrow>
   step_param rnd am bc l b e w s =
     (Some (RuntimeError ''Lamb does not support sparse gradients, consider SparseAdam instad.''), s)"
  by (simp add: step_param_def)

lemma step_param_grad: "grad (param (snd (step_param rnd am bc l b e w s))) = grad (param s)"
  by (auto simp: step_param_def Let_def split: option.splits prod.splits sum.splits)

lemma Lamb_step_snd:
  "snd (Lamb_step rnd ar ws closure opt) =
     (if fst (after_sync ar ws (after_closure closure opt)) \<noteq> None
      then snd (after_sync ar ws (after_closure closure opt))
      else snd (step_loop rnd (snd (after_sync ar ws (after_closure closure opt)))))"
  by (cases closure)
     (auto simp: Lamb_step_def after_closure_def after_sync_def split: prod.splits option.splits)

lemma step_loop_absent:
  assumes "gk < length (param_groups opt)" and "pk < length (params (param_groups opt ! gk))"
    and "grad (param (slot_at opt gk pk)) = None"
  shows "slot_at (snd (step_loop rnd opt)) gk pk = slot_at opt gk pk"
  unfolding step_loop_def
  by (rule for_each_param_frame [OF assms(1,2)]) (simp add: step_param_absent assms(3))

lemma step_loop_sparse:
  assumes "gk < length (param_groups opt)" and "pk < length (params (param_groups opt ! gk))"
    and "grad (param (slot_at opt gk pk)) = Some g" and "is_sparse g"
  shows "slot_at (snd (step_loop rnd opt)) gk pk = slot_at opt gk pk"
    and "fst (step_loop rnd opt) \<noteq> None"
  unfolding step_loop_def
  by (rule for_each_param_frame [OF assms(1,2)] for_each_param_raises [OF assms(1,2)],
      simp add: step_param_sparse [OF assms(3,4)])+

lemma sync_grads_absent:
  assumes "gk < length (param_groups opt)" and "pk < length (params (param_groups opt ! gk))"
    and "grad (param (slot_at opt gk pk)) = None"
  shows "slot_at (snd (sync_grads ar ws opt)) gk pk = slot_at opt gk pk"
proof (cases "distributed opt")
  case True
  have "slot_at (snd (for_each_param (\<lambda>gk g pk. sync_grad (ar gk pk) ws) opt)) gk pk = slot_at opt gk pk"
    by (rule for_each_param_frame [OF assms(1,2)]) (simp add: sync_grad_def assms(3))
  then show ?thesis using True by (simp add: sync_grads_def)
next
  case False
  then show ?thesis by (simp add: sync_grads_def)
qed

lemma sync_grads_shape:
  "length (param_groups (snd (sync_grads ar ws opt))) = length (param_groups opt)"
  "gk < length (param_groups opt) \<Longrightarrow>
   length (params (param_groups (snd (sync_grads ar ws opt)) ! gk)) = length (params (param_groups opt ! gk))"
  by (simp_all add: sync_grads_def for_each_param_groups_length for_each_param_params_length)

lemma Lamb_step_absent:
  assumes "gk < length (param_groups opt)" and "pk < length (params (param_groups opt ! gk))"
    and "grad (param (slot_at opt gk pk)) = None"
  shows "slot_at (snd (Lamb_step rnd ar ws None opt)) gk pk = slot_at opt gk pk"
proof -
  let ?o2 = "snd (after_sync ar ws opt)"
  have s2: "slot_at ?o2 gk pk = slot_at opt gk pk"
    using sync_grads_absent [OF assms] by (simp add: after_sync_def)
  have l1: "gk < length (param_groups ?o2)"
    using assms(1) by (simp add: after_sync_def sync_grads_shape)
  have l2: "pk < length (params (param_groups ?o2 ! gk))"
    using assms(1,2) by (simp add: after_sync_def sync_grads_shape)
  have "slot_at (snd (step_loop rnd ?o2)) gk pk = slot_at ?o2 gk pk"
    by (rule step_loop_absent [OF l1 l2]) (simp add: s2 assms(3))
  then show ?thesis
    using s2 by (simp add: Lamb_step_snd after_closure_def)
qed

section \<open>Absent and sparse gradients\<close>

text \<open>
  C7. A parameter without a gradient is skipped: the body of the loop returns it and its
  state as they were, and so do the whole loop and the whole of \<open>step\<close> (called without
  a closure), whatever happens to the other parameters. A sparse gradient makes the body
  raise \<open>RuntimeError\<close> with the parameter and its state untouched, and makes the loop
  raise.
\<close>

theorem step_skips_absent_rejects_sparse:
  assumes "gk < length (param_groups opt)" and "pk < length (params (param_groups opt ! gk))"
  shows "(grad (param s) = None \<longrightarrow> step_param rnd am bc l b e w s = (None, s))
       \<and> (\<forall>g. grad (param s) = Some g \<and> is_sparse g \<longrightarrow>
            step_param rnd am bc l b e w s =
              (Some (RuntimeError ''Lamb does not support sparse gradients, consider SparseAdam instad.''), s))
       \<and> (grad (param (slot_at opt gk pk)) = None \<longrightarrow>
            slot_at (snd (step_loop rnd opt)) gk pk = slot_at opt gk pk
          \<and> slot_at (snd (Lamb_step rnd ar ws None opt)) gk pk = slot_at opt gk pk)
       \<and> (\<forall>g. grad (param (slot_at opt gk pk)) = Some g \<and> is_sparse g \<longrightarrow>
            fst (step_loop rnd opt) \<noteq> None
          \<and> slot_at (snd (step_loop rnd opt)) gk pk = slot_at opt gk pk)"
proof (intro conjI impI allI)
  assume "grad (param s) = None"
  then show "step_param rnd am bc l b e w s = (None, s)"
    by (rule step_param_absent)
next
  fix g assume "grad (param s) = Some g \<and> is_sparse g"
  then show "step_param rnd am bc l b e w s =
      (Some (RuntimeError ''Lamb does not support sparse gradients, consider SparseAdam instad.''), s)"
    by (simp add: step_param_sparse)
next
  assume "grad (param (slot_at opt gk pk)) = None"
  then show "slot_at (snd (step_loop rnd opt)) gk pk = slot_at opt gk pk"
    by (rule step_loop_absent [OF assms])
next
  assume "grad (param (slot_at opt gk pk)) = None"
  then show "slot_at (snd (Lamb_step rnd ar ws None opt)) gk pk = slot_at opt gk pk"
    by (rule Lamb_step_absent [OF assms])
next
  fix g assume "grad (param (slot_at opt gk pk)) = Some g \<and> is_sparse g"
  then show "fst (step_loop rnd opt) \<noteq> None"
    using step_loop_sparse(2) [OF assms] by blast
next
  fix g assume "grad (param (slot_at opt gk pk)) = Some g \<and> is_sparse g"
  then show "slot_at (snd (step_loop rnd opt)) gk pk = slot_at opt gk pk"
    using step_loop_sparse(1) [OF assms] by blast
qed

theorem step_skips_absent_rejects_sparse_witness:
  "step_param no_rounding False True (1/100) (9/10, 999/1000) (1/1000000) (1/100) (ex_slot Float32 None)
     = (None, ex_slot Float32 None)
 \<and> slot_at (snd (step_loop no_rounding
       (ex_opt [ex_slot Float32 None, ex_slot Float32 (Some (ex_grad Float32 True))] False False))) 0 0
     = ex_slot Float32 None
 \<and> slot_at (snd (Lamb_step no_rounding (\<lambda>gk pk t. t) 1 None
       (ex_opt [ex_slot Float32 None, ex_slot Float32 (Some (ex_grad Float32 True))] False False))) 0 0
     = ex_slot Float32 None
 \<and> fst (step_loop no_rounding
       (ex_opt [ex_slot Float32 None, ex_slot Float32 (Some (ex_grad Float32 True))] False False)) \<noteq> None
 \<and> slot_at (snd (step_loop no_rounding
       (ex_opt [ex_slot Float32 None, ex_slot Float32 (Some (ex_grad Float32 True))] False False))) 0 1
     = ex_slot Float32 (Some (ex_grad Float32 True))"
  using step_skips_absent_rejects_sparse [where gk = 0 and pk = 0 and s = "ex_slot Float32 None"
      and opt = "ex_opt [ex_slot Float32 None, ex_slot Float32 (Some (ex_grad Float32 True))] False False"
      and rnd = no_rounding and am = False and bc = True and l = "1/100" and b = "(9/10, 999/1000)"
      and e = "1/1000000" and w = "1/100" and ar = "\<lambda>gk pk t. t" and ws = 1]
    step_skips_absent_rejects_sparse [where gk = 0 and pk = 1 and s = "ex_slot Float32 None"
      and opt = "ex_opt [ex_slot Float32 None, ex_slot Float32 (Some (ex_grad Float32 True))] False False"
      and rnd = no_rounding and am = False and bc = True and l = "1/100" and b = "(9/10, 999/1000)"
      and e = "1/1000000" and w = "1/100" and ar = "\<lambda>gk pk t. t" and ws = 1]
  by (simp add: ex_opt_def slot_at_def ex_slot_def ex_grad_def)

section \<open>Gradients are read only\<close>

lemma list_all2_map_eq: "list_all2 (\<lambda>x y. f x = f y) xs ys \<Longrightarrow> map f xs = map f ys"
  by (induction rule: list_all2_induct) simp_all

lemma step_loop_keeps_grads:
  "grads (snd (step_loop rnd opt)) = grads opt
   \<and> hyperparameters (snd (step_loop rnd opt)) = hyperparameters opt
   \<and> flags (snd (step_loop rnd opt)) = flags opt"
proof -
  let ?R = "\<lambda>s s'. grad (param s') = grad (param s)"
  let ?body = "\<lambda>gk g pk. step_param rnd (adam opt) (bias_correction opt) (lr g) (betas g) (eps g) (weight_decay g)"
  let ?opt' = "snd (for_each_param ?body opt)"
  have rel: "list_all2 (\<lambda>g g'. list_all2 ?R (params g) (params g') \<and> group.more g' = group.more g
            \<and> lr g' = lr g \<and> betas g' = betas g \<and> eps g' = eps g \<and> weight_decay g' = weight_decay g)
          (param_groups opt) (param_groups ?opt')
       \<and> adam ?opt' = adam opt \<and> bias_correction ?opt' = bias_correction opt
       \<and> perform_allreduce ?opt' = perform_allreduce opt \<and> distributed ?opt' = distributed opt"
    by (rule for_each_param_rel) (simp_all add: step_param_grad)
  have g: "list_all2 (\<lambda>g g'. map (\<lambda>s. grad (param s)) (params g) = map (\<lambda>s. grad (param s)) (params g'))
      (param_groups opt) (param_groups ?opt')"
    using rel by (auto elim!: list_all2_mono intro!: list_all2_map_eq [symmetric] simp: list_all2_conv_all_nth)
  have h: "list_all2 (\<lambda>g g'. (lr g, betas g, eps g, weight_decay g) = (lr g', betas g', eps g', weight_decay g'))
      (param_groups opt) (param_groups ?opt')"
    using rel by (auto elim!: list_all2_mono)
  show ?thesis
    using list_all2_map_eq [OF g] list_all2_map_eq [OF h] rel
    by (simp add: grads_def hyperparameters_def flags_def step_loop_def)
qed

text \<open>
  C10. With \<open>perform_allreduce\<close> false, \<open>step\<close> leaves every gradient as it found it,
  along with the hyperparameters of the groups and the flags of the optimizer: it writes
  parameter values and per-parameter state only. With a closure, "as it found it" is as
  the closure left it, the closure being the caller's code.
\<close>

theorem step_without_allreduce_keeps_gradients:
  "(\<not> perform_allreduce opt \<longrightarrow>
      grads (snd (Lamb_step rnd ar ws None opt)) = grads opt
    \<and> hyperparameters (snd (Lamb_step rnd ar ws None opt)) = hyperparameters opt
    \<and> flags (snd (Lamb_step rnd ar ws None opt)) = flags opt)
 \<and> (\<not> perform_allreduce (snd (c opt)) \<longrightarrow>
      grads (snd (Lamb_step rnd ar ws (Some c) opt)) = grads (snd (c opt))
    \<and> hyperparameters (snd (Lamb_step rnd ar ws (Some c) opt)) = hyperparameters (snd (c opt))
    \<and> flags (snd (Lamb_step rnd ar ws (Some c) opt)) = flags (snd (c opt)))"
  using step_loop_keeps_grads [of rnd opt] step_loop_keeps_grads [of rnd "snd (c opt)"]
  by (simp add: Lamb_step_snd after_closure_def after_sync_def)

theorem step_without_allreduce_keeps_gradients_witness:
  "grads (snd (Lamb_step no_rounding (\<lambda>gk pk t. t) 1 None
       (ex_opt [ex_slot Float32 (Some (ex_grad Float32 False))] False False)))
     = [[Some (ex_grad Float32 False)]]
 \<and> grads (snd (Lamb_step no_rounding (\<lambda>gk pk t. t) 1 (Some (\<lambda>opt. (1/2, opt)))
       (ex_opt [ex_slot Float32 (Some (ex_grad Float32 False))] False False)))
     = [[Some (ex_grad Float32 False)]]"
  using step_without_allreduce_keeps_gradients [where rnd = no_rounding and ar = "\<lambda>gk pk t. t" and ws = 1
      and c = "\<lambda>opt. (1/2, opt)"
      and opt = "ex_opt [ex_slot Float32 (Some (ex_grad Float32 False))] False False"]
  by (simp add: ex_opt_def grads_def ex_slot_def)

section \<open>The trust ratio\<close>

text \<open>
  C5. The trust ratio is 1 when the weight decay is zero, when the weight decay is
  positive and the norm of the parameter value or of the update is zero, and in Adam mode;
  \<open>weight_norm / adam_norm\<close> is never evaluated with a zero divisor. Otherwise the
  ratio is the quotient of the two norms, evaluated once.
\<close>

theorem trust_ratio_one_and_no_zero_divisor:
  "(wd = 0 \<longrightarrow> fst (snd (trust_block am wd d u)) = 1)
 \<and> (0 < wd \<and> (l2norm d = 0 \<or> l2norm (add_inplace u d wd) = 0) \<longrightarrow>
      fst (snd (trust_block am wd d u)) = 1)
 \<and> (am \<longrightarrow> fst (snd (trust_block am wd d u)) = 1)
 \<and> (\<forall>x \<in> set (snd (snd (snd (trust_block am wd d u)))). x \<noteq> 0)
 \<and> (wd \<noteq> 0 \<and> \<not> am \<and> l2norm d \<noteq> 0 \<and> l2norm (add_inplace u d wd) \<noteq> 0 \<longrightarrow>
      fst (snd (trust_block am wd d u)) = l2norm d / l2norm (add_inplace u d wd)
    \<and> snd (snd (snd (trust_block am wd d u))) = [l2norm (add_inplace u d wd)])"
  by (simp add: trust_block_def Let_def)

theorem trust_ratio_one_and_no_zero_divisor_witness:
  "fst (snd (trust_block False 0 (ex_data Float32) (ex_grad Float32 False))) = 1
 \<and> fst (snd (trust_block False (1/100) ((ex_data Float32)\<lparr>vals := [0, 0]\<rparr>) (ex_grad Float32 False))) = 1
 \<and> fst (snd (trust_block True (1/100) (ex_data Float32) (ex_grad Float32 False))) = 1
 \<and> snd (snd (snd (trust_block False (1/100) (ex_data Float32) (ex_grad Float32 False))))
       = [l2norm (add_inplace (ex_grad Float32 False) (ex_data Float32) (1/100))]"
  using trust_ratio_one_and_no_zero_divisor [of 0 False "ex_data Float32" "ex_grad Float32 False"]
    trust_ratio_one_and_no_zero_divisor [of "1/100" False "(ex_data Float32)\<lparr>vals := [0, 0]\<rparr>" "ex_grad Float32 False"]
    trust_ratio_one_and_no_zero_divisor [of "1/100" True "ex_data Float32" "ex_grad Float32 False"]
    trust_ratio_one_and_no_zero_divisor [of "1/100" False "ex_data Float32" "ex_grad Float32 False"]
  by (simp add: l2norm_def ex_data_def ex_grad_def add_inplace_def)

section \<open>The invariant of the per-parameter state\<close>

lemma init_state_matches: "state_matches p (init_state rnd p)"
  by (simp add: state_matches_def init_state_def zeros_like_def to_dtype_def)

lemma trust_block_shape:
  assumes "length (vals u) = length (vals d)"
  shows "length (vals (fst (trust_block am wd d u))) = length (vals d)
       \<and> shape (fst (trust_block am wd d u)) = shape u
       \<and> dtype (fst (trust_block am wd d u)) = dtype u"
  using assms by (simp add: trust_block_def Let_def add_inplace_def case_prod_beta)

lemmas tensor_ops =
  add_inplace_def mul_inplace_def addcmul_inplace_def truediv_def tsqrt_def add_scalar_def
  tdiv_def to_dtype_def

lemma step_param_dense:
  assumes g: "grad (param s) = Some g" and ok: "slot_ok s"
  shows "fst (step_param rnd am bc l b e w s) = None
       \<and> slot_ok (snd (step_param rnd am bc l b e w s))
       \<and> state (snd (step_param rnd am bc l b e w s)) \<noteq> None
       \<and> steps_of (snd (step_param rnd am bc l b e w s)) = steps_of s + 1
       \<and> shape (data (param (snd (step_param rnd am bc l b e w s)))) = shape (data (param s))
       \<and> dtype (data (param (snd (step_param rnd am bc l b e w s)))) = dtype (data (param s))"
proof -
  define st0 where "st0 = (case state s of None \<Rightarrow> init_state rnd (param s) | Some st \<Rightarrow> st)"
  have m0: "state_matches (param s) st0"
    using ok by (auto simp: st0_def slot_ok_def init_state_matches split: option.splits)
  have n0: "step st0 = steps_of s"
    by (simp add: st0_def steps_of_def init_state_def split: option.splits)
  have dense: "\<not> is_sparse g" and len: "length (vals g) = length (vals (data (param s)))"
    using ok g by (simp_all add: slot_ok_def)
  obtain b1 b2 where b: "b = (b1, b2)" by (cases b)
  show ?thesis
  proof (cases "dtype (data (param s)) = BFloat16")
    case True
    then obtain d where d: "data_fp32 st0 = Some d"
      using m0 by (auto simp: state_matches_def split: option.splits)
    have dl: "length (vals d) = length (vals (data (param s)))" "shape d = shape (data (param s))"
      "dtype d = Float32"
      using m0 d by (simp_all add: state_matches_def)
    show ?thesis
      using g dense len True d dl m0 n0 b
      by (simp add: step_param_def st0_def [symmetric] Let_def case_prod_beta slot_ok_def
          steps_of_def state_matches_def trust_block_shape tensor_ops split: option.splits)
  next
    case False
    then have d: "data_fp32 st0 = None"
      using m0 by (auto simp: state_matches_def split: option.splits)
    show ?thesis
      using g dense len False d m0 n0 b
      by (simp add: step_param_def st0_def [symmetric] Let_def case_prod_beta slot_ok_def
          steps_of_def state_matches_def trust_block_shape tensor_ops split: option.splits)
  qed
qed

lemma step_param_effect:
  assumes "slot_ok s"
  shows "fst (step_param rnd am bc l b e w s) = None
       \<and> step_effect s (snd (step_param rnd am bc l b e w s))"
proof (cases "grad (param s)")
  case None
  then show ?thesis using assms by (simp add: step_param_absent step_effect_def)
next
  case (Some g)
  then show ?thesis using step_param_dense [OF Some assms, of rnd am bc l b e w]
    by (simp add: step_effect_def)
qed

text \<open>
  C8, amended to name the storage type. A state met for the first time has step count 0 and
  zero-filled float32 moments of the parameter's shape, whatever the parameter's storage
  type, and a float32 copy of the value exactly when the parameter is stored as bfloat16.
  On well-formed slots the loop raises nothing, keeps every state matching its parameter,
  and raises the step count by exactly one for each parameter that has a gradient.
\<close>

theorem optimizer_state_invariant:
  assumes "\<forall>g \<in> set (param_groups opt). \<forall>s \<in> set (params g). slot_ok s"
  shows "step (init_state rnd p) = 0
       \<and> exp_avg (init_state rnd p) = (data p)\<lparr>dtype := Float32, vals := replicate (length (vals (data p))) 0\<rparr>
       \<and> exp_avg_sq (init_state rnd p) = (data p)\<lparr>dtype := Float32, vals := replicate (length (vals (data p))) 0\<rparr>
       \<and> (data_fp32 (init_state rnd p) \<noteq> None) = (dtype (data p) = BFloat16)
       \<and> state_matches p (init_state rnd p)
       \<and> fst (step_loop rnd opt) = None
       \<and> list_all2 (\<lambda>g g'. list_all2 step_effect (params g) (params g'))
            (param_groups opt) (param_groups (snd (step_loop rnd opt)))"
proof -
  have "fst (step_loop rnd opt) = None
      \<and> list_all2 (\<lambda>g g'. list_all2 step_effect (params g) (params g'))
            (param_groups opt) (param_groups (snd (step_loop rnd opt)))"
    unfolding step_loop_def
    by (rule for_each_param_total) (use assms step_param_effect in blast)
  moreover have "step (init_state rnd p) = 0
       \<and> exp_avg (init_state rnd p) = (data p)\<lparr>dtype := Float32, vals := replicate (length (vals (data p))) 0\<rparr>
       \<and> exp_avg_sq (init_state rnd p) = (data p)\<lparr>dtype := Float32, vals := replicate (length (vals (data p))) 0\<rparr>
       \<and> (data_fp32 (init_state rnd p) \<noteq> None) = (dtype (data p) = BFloat16)"
    by (simp add: init_state_def zeros_like_def map_replicate_const)
  ultimately show ?thesis
    using init_state_matches [of p rnd] by simp
qed

theorem optimizer_state_invariant_witness:
  "fst (step_loop no_rounding
     (ex_opt [ex_slot Float32 (Some (ex_grad Float32 False)),
              ex_slot BFloat16 (Some (ex_grad BFloat16 False)),
              ex_slot Float16 None] False False)) = None
 \<and> list_all2 (\<lambda>g g'. list_all2 step_effect (params g) (params g'))
      (param_groups (ex_opt [ex_slot Float32 (Some (ex_grad Float32 False)),
              ex_slot BFloat16 (Some (ex_grad BFloat16 False)),
              ex_slot Float16 None] False False))
      (param_groups (snd (step_loop no_rounding
         (ex_opt [ex_slot Float32 (Some (ex_grad Float32 False)),
              ex_slot BFloat16 (Some (ex_grad BFloat16 False)),
              ex_slot Float16 None] False False))))
 \<and> (data_fp32 (init_state no_rounding (param (ex_slot BFloat16 None))) \<noteq> None)"
proof -
  have h: "\<forall>g \<in> set (param_groups (ex_opt [ex_slot Float32 (Some (ex_grad Float32 False)),
              ex_slot BFloat16 (Some (ex_grad BFloat16 False)),
              ex_slot Float16 None] False False)). \<forall>s \<in> set (params g). slot_ok s"
    by (simp add: ex_opt_def ex_slot_def ex_grad_def ex_data_def slot_ok_def)
  show ?thesis
    using optimizer_state_invariant [OF h, of no_rounding "param (ex_slot BFloat16 None)"]
    by (simp add: ex_slot_def ex_data_def)
qed

text \<open>
  The claim as worded, with a shadow copy for every reduced-precision storage type, fails
  on a float16 parameter: lines 92 and 108 test for bfloat16 only.
\<close>

theorem shadow_copy_iff_reduced_precision_counterexample:
  "\<not> ((data_fp32 (init_state no_rounding (param (ex_slot Float16 None))) \<noteq> None)
       = reduced_precision (dtype (data (param (ex_slot Float16 None)))))"
  by (simp add: init_state_def ex_slot_def ex_data_def reduced_precision_def)

section \<open>Gradient accumulation\<close>

lemma train_step_fires_iff:
  "freq \<noteq> 0 \<Longrightarrow>
   (\<exists>evs loss. train_step freq is_ddp raw batch_idx = Inr (evs, loss) \<and>
      (OptStep \<in> set evs) = ((batch_idx + 1) mod freq = 0))"
  by (simp add: train_step_def Let_def)

lemma deepcam_fires_iff:
  "ga \<noteq> 0 \<Longrightarrow>
   (\<exists>evs. deepcam_iteration ga n raw idx = Inr evs \<and>
      (OptStep \<in> set evs) = ((idx + 1) mod ga = 0 \<or> idx + 1 = n))"
  by (simp add: deepcam_iteration_def Let_def)

lemma train_epoch_example:
  "train_epoch 4 True 0 (replicate 10 1) =
     Inr [[Forward, Backward (1/4) True], [Forward, Backward (1/4) True],
          [Forward, Backward (1/4) True], [Forward, Backward (1/4) False, OptStep, ZeroGrad],
          [Forward, Backward (1/4) True], [Forward, Backward (1/4) True],
          [Forward, Backward (1/4) True], [Forward, Backward (1/4) False, OptStep, ZeroGrad],
          [Forward, Backward (1/4) True], [Forward, Backward (1/4) True]]"
  by (simp add: train_step_def Let_def numeral_eq_Suc)

lemma deepcam_epoch_example:
  "deepcam_epoch 4 (replicate 10 1) =
     Inr [[Forward, Backward (1/4) False], [Forward, Backward (1/4) False],
          [Forward, Backward (1/4) False],
          [Forward, Backward (1/4) False, OptStep, ZeroGrad, SchedulerStep],
          [Forward, Backward (1/4) False], [Forward, Backward (1/4) False],
          [Forward, Backward (1/4) False],
          [Forward, Backward (1/4) False, OptStep, ZeroGrad, SchedulerStep],
          [Forward, Backward (1/4) False],
          [Forward, Backward (1/4) False, OptStep, ZeroGrad, SchedulerStep]]"
  by (simp add: deepcam_epoch_def deepcam_iteration_def Let_def numeral_eq_Suc)

lemma upt_10: "[0..<10] = [0, 1, 2, 3, 4, 5, 6, 7, 8, 9]"
  by (simp add: upt_rec numeral_eq_Suc)

text \<open>
  C2. With a frequency of 4 and an epoch of 10 micro-batches, \<open>train_step\<close> runs the last
  micro-batch (index 9) under \<open>no_sync\<close> and returns without an optimizer step: in the
  epoch the step runs at indices 3 and 7 only, and the gradients of micro-batches 8 and 9
  are not flushed. The loop of DeepCAM, on the same input, steps at 3, 7 and 9.
\<close>

theorem train_step_has_no_forced_flush:
  "train_step 4 True 1 9 = Inr ([Forward, Backward (1/4) True], 1/4)
 \<and> map_sum id step_indices (train_epoch 4 True 0 (replicate 10 1)) = Inr [3, 7]
 \<and> deepcam_iteration 4 10 1 9 = Inr [Forward, Backward (1/4) False, OptStep, ZeroGrad, SchedulerStep]
 \<and> map_sum id step_indices (deepcam_epoch 4 (replicate 10 1)) = Inr [3, 7, 9]"
  unfolding train_epoch_example deepcam_epoch_example
  by (simp add: train_step_def deepcam_iteration_def step_indices_def Let_def upt_10)

text \<open>
  C9. For every frequency of at least 1, every micro-batch index and on both paths of
  \<open>train_step\<close> as in the loop of DeepCAM, the one backward pass of a micro-batch is run
  on the loss divided by the frequency, and nothing but the forward pass comes before it.
\<close>

theorem loss_scaled_before_backward:
  assumes "1 \<le> freq"
  shows "(\<exists>evs. train_step freq is_ddp raw batch_idx = Inr (evs, raw / real_of_int freq)
            \<and> backward_losses evs = [raw / real_of_int freq]
            \<and> before_backward evs = [Forward])
       \<and> (\<exists>evs. deepcam_iteration freq n raw idx = Inr evs
            \<and> backward_losses evs = [raw / real_of_int freq]
            \<and> before_backward evs = [Forward])"
  using assms by (simp add: train_step_def deepcam_iteration_def Let_def)

theorem loss_scaled_before_backward_witness:
  "train_step 4 True 1 2 = Inr ([Forward, Backward (1/4) True], 1/4)
 \<and> train_step 4 True 1 3 = Inr ([Forward, Backward (1/4) False, OptStep, ZeroGrad], 1/4)
 \<and> deepcam_iteration 4 10 1 2 = Inr [Forward, Backward (1/4) False]"
  using loss_scaled_before_backward [of 4 True 1 2 10 2] loss_scaled_before_backward [of 4 True 1 3 10 2]
  by (simp add: train_step_def deepcam_iteration_def Let_def)

section \<open>Broadcasting the parameters\<close>

lemma sync_params_not_distributed: "\<not> distributed opt \<Longrightarrow> sync_params opt = (None, opt)"
  by (simp add: sync_params_def)

text \<open>
  C3. Without a distributed run \<open>sync_params\<close> returns at once and changes nothing. In a
  distributed run with a parameter it raises \<open>AttributeError\<close> at the first parameter and
  leaves every value as it was: nothing is received from rank 0.
\<close>

theorem sync_params_raises_when_distributed:
  "sync_params (ex_opt [ex_slot Float32 None] False True)
     = (Some (AttributeError ''function object has no attribute broadcase''),
        ex_opt [ex_slot Float32 None] False True)
 \<and> sync_params (ex_opt [ex_slot Float32 None] False False)
     = (None, ex_opt [ex_slot Float32 None] False False)"
  by (simp add: sync_params_def for_each_param_def sync_param_def distance_broadcase_def ex_opt_def)

section \<open>Averaging the gradients\<close>

lemma for_each_exact:
  assumes "\<And>i x. x \<in> set xs \<Longrightarrow> fst (body i x) = None" and "j < length xs"
  shows "snd (for_each body i xs) ! j = snd (body (i + j) (xs ! j))"
  using assms
proof (induction xs arbitrary: i j)
  case Nil
  then show ?case by simp
next
  case (Cons x xs)
  show ?case
  proof (cases j)
    case 0
    then show ?thesis by (simp add: for_each_Cons_snd del: for_each.simps(2))
  next
    case (Suc k)
    then have "snd (for_each body (Suc i) xs) ! k = snd (body (Suc i + k) (xs ! k))"
      using Cons.IH [where i = "Suc i" and j = k] Cons.prems by simp
    then show ?thesis using Suc Cons.prems(1) [of x i]
      by (simp add: for_each_Cons_snd del: for_each.simps(2))
  qed
qed

lemma for_each_param_exact:
  assumes ne: "\<And>gk g pk s. g \<in> set (param_groups opt) \<Longrightarrow> s \<in> set (params g) \<Longrightarrow> fst (body gk g pk s) = None"
    and gk: "gk < length (param_groups opt)" and pk: "pk < length (params (param_groups opt ! gk))"
  shows "slot_at (snd (for_each_param body opt)) gk pk
       = snd (body gk (param_groups opt ! gk) pk (slot_at opt gk pk))"
proof -
  let ?g = "param_groups opt ! gk"
  have gne: "fst (group_body body i g) = None" if "g \<in> set (param_groups opt)" for i g
    using for_each_no_error [of "params g" "body i g" 0] ne that by (simp add: group_body_def)
  have "snd (for_each (group_body body) 0 (param_groups opt)) ! gk = snd (group_body body (0 + gk) ?g)"
    by (rule for_each_exact [OF _ gk]) (use gne in blast)
  moreover have "snd (for_each (body gk ?g) 0 (params ?g)) ! pk = snd (body gk ?g (0 + pk) (params ?g ! pk))"
    by (rule for_each_exact [OF _ pk]) (use ne gk in simp)
  ultimately show ?thesis
    by (simp add: for_each_param_alt slot_at_def group_body_def)
qed

lemma vsum_scale: "vsum (map (map (\<lambda>x. x / c)) vs) = map (\<lambda>x. x / c) (vsum vs)"
proof (induction vs rule: vsum.induct)
  case (3 v w vs)
  have "map2 (+) (map (\<lambda>x. x / c) v) (map (\<lambda>x. x / c) u) = map (\<lambda>x. x / c) (map2 (+) v u)" for u
    by (simp add: zip_map_map add_divide_distrib case_prod_beta)
  then show ?case using 3 by simp
qed simp_all

lemma vsum_length:
  "vs \<noteq> [] \<Longrightarrow> \<forall>v \<in> set vs. length v = n \<Longrightarrow> length (vsum vs) = n"
  by (induction vs rule: vsum.induct) simp_all

lemma vsum_nth:
  "vs \<noteq> [] \<Longrightarrow> \<forall>v \<in> set vs. length v = n \<Longrightarrow> j < n \<Longrightarrow>
   vsum vs ! j = sum_list (map (\<lambda>v. v ! j) vs)"
proof (induction vs rule: vsum.induct)
  case (3 v w vs)
  have "length (vsum (w # vs)) = n"
    using 3 by (intro vsum_length) simp_all
  then show ?case using 3 by simp
qed simp_all

lemma divide_then_sum:
  "vsum (map (\<lambda>g. vals (div_inplace g (real (length gs)))) gs) = all_reduce_then_divide (map vals gs)"
proof -
  have "map (\<lambda>g. vals (div_inplace g (real (length gs)))) gs
      = map (map (\<lambda>x. x / real (length gs))) (map vals gs)"
    by (simp add: div_inplace_def)
  then show ?thesis
    by (simp only: vsum_scale all_reduce_then_divide_def length_map)
qed

lemma sync_grads_with_gradients:
  assumes d: "distributed opt" and all: "has_all_grads opt"
    and gk: "gk < length (param_groups opt)" and pk: "pk < length (params (param_groups opt ! gk))"
    and g: "grad (param (slot_at opt gk pk)) = Some g"
  shows "fst (sync_grads ar ws opt) = None"
    and "grad (param (slot_at (snd (sync_grads ar ws opt)) gk pk))
           = Some (ar gk pk (div_inplace g (real_of_int ws)))"
proof -
  let ?body = "\<lambda>gk (g::group) pk. sync_grad (ar gk pk) ws"
  have ne: "fst (?body i grp j s) = None"
    if "grp \<in> set (param_groups opt)" "s \<in> set (params grp)" for i grp j s
    using all that by (auto simp: has_all_grads_def sync_grad_def split: option.splits)
  have "fst (for_each_param ?body opt) = None"
    by (rule for_each_param_no_error) (use ne in blast)
  then show "fst (sync_grads ar ws opt) = None"
    using d by (simp add: sync_grads_def)
  have "slot_at (snd (for_each_param ?body opt)) gk pk
      = snd (?body gk (param_groups opt ! gk) pk (slot_at opt gk pk))"
    by (rule for_each_param_exact [OF _ gk pk]) (use ne in blast)
  then show "grad (param (slot_at (snd (sync_grads ar ws opt)) gk pk))
           = Some (ar gk pk (div_inplace g (real_of_int ws)))"
    using d g by (simp add: sync_grads_def sync_grad_def)
qed

lemma sync_grads_not_distributed: "\<not> distributed opt \<Longrightarrow> sync_grads ar ws opt = (None, opt)"
  by (simp add: sync_grads_def)

text \<open>
  C4. A rank of a distributed run of two holds a first parameter without a gradient and a
  second with the gradient \<open>[2, 4]\<close>; the other rank holds \<open>[6, 8]\<close> for the second, so its
  mean is \<open>[4, 6]\<close>. Whatever the collective would do, \<open>sync_grads\<close> raises
  \<open>AttributeError\<close> at the first parameter, where line 71 reads \<open>p.grad.data\<close>, and leaves
  the second gradient at \<open>[2, 4]\<close>. The loop of \<open>step\<close> guards the same case (lines 90-91)
  and passes over the first parameter.
\<close>

theorem sync_grads_raises_on_absent_gradient:
  "sync_grads ar 2
     (ex_opt [ex_slot Float32 None, ex_slot Float32 (Some ((ex_grad Float32 False)\<lparr>vals := [2, 4]\<rparr>))]
        True True)
     = (Some (AttributeError ''NoneType object has no attribute data''),
        ex_opt [ex_slot Float32 None, ex_slot Float32 (Some ((ex_grad Float32 False)\<lparr>vals := [2, 4]\<rparr>))]
          True True)
 \<and> all_reduce_then_divide [[2, 4], [6, 8]] = [4, 6]
 \<and> step_param no_rounding False True (1/100) (9/10, 999/1000) (1/1000000) (1/100) (ex_slot Float32 None)
     = (None, ex_slot Float32 None)"
  by (simp add: sync_grads_def for_each_param_def sync_grad_def ex_opt_def ex_slot_def
      all_reduce_then_divide_def step_param_def)

section \<open>The hierarchical hook\<close>

lemma custom_reduce_hook_leader_never_returns:
  assumes "taskspernode \<noteq> 0" and "rank mod taskspernode = 0"
  shows "custom_reduce_hook rd ar bc rank taskspernode world_size local_ranks buffer \<noteq> Returns v"
proof (cases "rd buffer")
  case (Done ys)
  then show ?thesis
    using assms
    by (cases "ar ys")
       (auto simp: custom_reduce_hook_def hook_reduce_def hook_all_reduce_zeros_def
          dist_reduce_def dist_all_reduce_def)
next
  case (Later ys)
  then show ?thesis
    using assms
    by (cases "ar ys")
       (auto simp: custom_reduce_hook_def hook_reduce_def hook_all_reduce_zeros_def
          dist_reduce_def dist_all_reduce_def)
next
  case Never
  then show ?thesis
    using assms by (auto simp: custom_reduce_hook_def hook_reduce_def dist_reduce_def)
qed

lemma hook_dev_of_bucket: "hook_dev world_size (Tensor1 zs) \<noteq> Returns (Tensor1 xs)"
  by (cases zs) (simp_all add: hook_dev_def)

lemma hook_local_broadcast_then_dev:
  "then_value (hook_local_broadcast bc local_ranks (TensorList [Tensor1 ys])) (hook_dev world_size)
     \<noteq> Returns (Tensor1 xs)"
  by (cases "bc ys"; cases "0 \<in> set local_ranks")
     (simp_all add: hook_local_broadcast_def dist_broadcast_def hook_dev_of_bucket)

lemma custom_reduce_hook_never_returns_the_bucket:
  "custom_reduce_hook rd ar bc rank taskspernode world_size local_ranks buffer \<noteq> Returns (Tensor1 xs)"
proof (cases "taskspernode \<noteq> 0 \<and> rank mod taskspernode = 0")
  case True
  then show ?thesis
    by (simp add: custom_reduce_hook_leader_never_returns)
next
  case False
  then show ?thesis
    using hook_local_broadcast_then_dev [of bc local_ranks _ world_size xs]
    by (cases "rd buffer")
       (auto simp: custom_reduce_hook_def hook_reduce_def dist_reduce_def)
qed

text \<open>
  C1. Two ranks on one node, the local group \<open>[0, 1]\<close>, hold the buckets \<open>[2, 4]\<close> and
  \<open>[6, 8]\<close>; the flat all-reduce followed by the division by 2 gives \<open>[4, 6]\<close> on both.
  On rank 0, the leader, the reduce completes with the sum \<open>[8, 12]\<close> and
  \<open>_all_reduce_zeros\<close> then calls \<open>dist.all_reduce\<close> with \<open>0\<close> for the reduction: the
  call raises \<open>TypeError\<close>, which the future of the hook carries. Rank 0 therefore never
  issues the broadcast that rank 1 waits for in \<open>_local_broadcast\<close>, and the future of
  the hook on rank 1 never completes.
\<close>

theorem custom_reduce_hook_returns_no_average:
  "custom_reduce_hook (\<lambda>b. Done [8, 12]) (\<lambda>b. Done b) (\<lambda>b. Done b) 0 2 2 [0, 1] [2, 4]
     = Raises (TypeError ''op must be a ReduceOp, not int'')
 \<and> custom_reduce_hook (\<lambda>b. Done b) (\<lambda>b. Done b) (\<lambda>b. Never) 1 2 2 [0, 1] [6, 8] = Blocks
 \<and> all_reduce_then_divide [[2, 4], [6, 8]] = [4, 6]"
  by (simp add: custom_reduce_hook_def hook_reduce_def hook_dev_def hook_all_reduce_zeros_def
      hook_local_broadcast_def dist_reduce_def dist_all_reduce_def dist_broadcast_def
      all_reduce_then_divide_def)

end
